theory Spec2Isabelle
  imports Main
begin

section \<open>Strings and Python values\<close>

text \<open>
  A Python \<open>str\<close> is modelled as a HOL \<open>string\<close>. Only the ASCII part of Python's
  notion of whitespace is modelled: \<open>str.strip()\<close> removes the characters with code
  9 to 13 and 28 to 32 from both ends.
\<close>

definition is_space :: "char \<Rightarrow> bool" where
  "is_space c = (let n = (of_char c :: nat) in (9 \<le> n \<and> n \<le> 13) \<or> (28 \<le> n \<and> n \<le> 32))"

definition strip :: "string \<Rightarrow> string" where
  "strip s = rev (dropWhile is_space (rev (dropWhile is_space s)))"

text \<open>
  A value found in a decoded JSON object: \<open>None\<close>, a string, or any other value
  (number, boolean, list, nested object), which is carried by the text that Python's
  \<open>str()\<close> gives for it.
\<close>

datatype pyval = PNone | PStr string | POther string

fun py_str :: "pyval \<Rightarrow> string" where
  "py_str PNone = ''None''"
| "py_str (PStr s) = s"
| "py_str (POther s) = s"

text \<open>
  A Python \<open>dict\<close> with string keys is an association list in insertion order.
  \<open>d[k] = v\<close> replaces the value of an existing key in place and appends a new key.
\<close>

type_synonym 'v pydict = "(string \<times> 'v) list"

fun dict_set :: "'v pydict \<Rightarrow> string \<Rightarrow> 'v \<Rightarrow> 'v pydict" where
  "dict_set [] k v = [(k, v)]"
| "dict_set ((k', v') # d) k v = (if k' = k then (k, v) # d else (k', v') # dict_set d k v)"

definition dict_keys :: "'v pydict \<Rightarrow> string list" where
  "dict_keys d = map fst d"

section \<open>Configuration (config.py)\<close>

definition FIELDS_TO_SCRAPE :: "string list" where
  "FIELDS_TO_SCRAPE =
     [''Start Date'', ''End Date'', ''Location'', ''Speaker'', ''Attendees'', ''Status'']"

section \<open>Result validation (web\_scraper.py, validate\_scraped\_data)\<close>

text \<open>
  One round of the loop over the two date fields: the field is copied, trimmed, when it
  is a key of \<open>data\<close>, its trimmed text contains a slash and has at most five characters.
\<close>

definition validate_date :: "pyval pydict \<Rightarrow> pyval pydict \<Rightarrow> string \<Rightarrow> pyval pydict" where
  "validate_date data validated_data date_field =
     (case map_of data date_field of
        None \<Rightarrow> validated_data
      | Some x \<Rightarrow>
          (let date_value = strip (py_str x)
           in if CHR ''/'' \<in> set date_value \<and> length date_value \<le> 5
              then dict_set validated_data date_field (PStr date_value)
              else validated_data))"

text \<open>The four blocks for Location, Speaker, Attendees and Status have the same shape.\<close>

definition validate_text :: "pyval pydict \<Rightarrow> pyval pydict \<Rightarrow> string \<Rightarrow> pyval pydict" where
  "validate_text data validated_data field =
     (case map_of data field of
        None \<Rightarrow> validated_data
      | Some x \<Rightarrow>
          (let text = strip (py_str x)
           in if length text > 0
              then dict_set validated_data field (PStr text)
              else validated_data))"

definition validate_scraped_data :: "pyval pydict \<Rightarrow> pyval pydict" where
  "validate_scraped_data data =
     (let validated_data = foldl (validate_date data) [] [''Start Date'', ''End Date''];
          validated_data = validate_text data validated_data ''Location'';
          validated_data = validate_text data validated_data ''Speaker'';
          validated_data = validate_text data validated_data ''Attendees'';
          validated_data = validate_text data validated_data ''Status''
      in validated_data)"

text \<open>
  The rule of the validator, field by field, as a function: the trimmed text that is kept
  for field \<open>f\<close>, if any. It is used to state what \<open>validate_scraped_data\<close> computes.
\<close>

definition accepted :: "pyval pydict \<Rightarrow> string \<Rightarrow> string option" where
  "accepted data f =
     (case map_of data f of
        None \<Rightarrow> None
      | Some x \<Rightarrow>
          (let t = strip (py_str x)
           in if (if f = ''Start Date'' \<or> f = ''End Date''
                  then CHR ''/'' \<in> set t \<and> length t \<le> 5 else t \<noteq> [])
              then Some t else None))"

definition entry :: "pyval pydict \<Rightarrow> string \<Rightarrow> pyval pydict" where
  "entry data f = (case accepted data f of None \<Rightarrow> [] | Some t \<Rightarrow> [(f, PStr t)])"


section \<open>Oracle client (web\_scraper.py)\<close>

text \<open>
  Exceptions are values. \<open>ServiceError\<close> stands for any exception raised by a
  collaborator outside the repository (the language-model service, the spreadsheet
  service, the file system); all of them are subclasses of Python's \<open>Exception\<close>.
\<close>

datatype py_exn = KeyError | IndexError | ValueError | AttributeError | ServiceError

text \<open>
  The call \<open>client.responses.create\<close> either raises or gives a response with an
  \<open>output_text\<close>. The decoder \<open>json.loads\<close> belongs to the Python library; it is a
  parameter of the model, with three kinds of result: a decoding error, a JSON object
  (a dict), or some other JSON value.
\<close>

datatype api_reply = ApiRaises | ApiText string

datatype json_result = JSONDecodeError | JObject "pyval pydict" | JOther

text \<open>What \<open>search_conference_info\<close> returns: \<open>False\<close> or a non-empty dict.\<close>

datatype scraped = SFalse | SData "pyval pydict"

datatype log_entry = LogInfo string | LogError string | LogDebug string

text \<open>\<open>str.lower()\<close>, on the letters of ASCII.\<close>

definition to_lower :: "char \<Rightarrow> char" where
  "to_lower c =
     (case map_of (zip ''ABCDEFGHIJKLMNOPQRSTUVWXYZ'' ''abcdefghijklmnopqrstuvwxyz'') c of
        None \<Rightarrow> c
      | Some l \<Rightarrow> l)"

definition lower :: "string \<Rightarrow> string" where
  "lower s = map to_lower s"

definition startswith :: "string \<Rightarrow> string \<Rightarrow> bool" where
  "startswith s p = (take (length p) s = p)"

text \<open>\<open>s.replace(old, '')\<close>: every occurrence of \<open>old\<close>, from the left, is removed.\<close>

fun replace_empty :: "string \<Rightarrow> string \<Rightarrow> string" where
  "replace_empty old [] = []"
| "replace_empty old (c # cs) =
     (if old \<noteq> [] \<and> take (length old) (c # cs) = old
      then replace_empty old (drop (length old) (c # cs))
      else c # replace_empty old cs)"

text \<open>\<open>sub in s\<close> for strings.\<close>

fun contains :: "string \<Rightarrow> string \<Rightarrow> bool" where
  "contains sub [] = (sub = [])"
| "contains sub (c # cs) = (take (length sub) (c # cs) = sub \<or> contains sub cs)"

definition remove_markdown :: "string \<Rightarrow> string" where
  "remove_markdown response_text =
     (if startswith response_text ''```json''
      then strip (replace_empty ''```'' (replace_empty ''```json'' response_text))
      else response_text)"

definition keep_value :: "pyval \<Rightarrow> bool" where
  "keep_value v = (v \<noteq> PNone \<and> strip (py_str v) \<noteq> [])"

text \<open>The loop over \<open>parsed_response.items()\<close> that fills \<open>filtered_response\<close>.\<close>

fun filter_response :: "pyval pydict \<Rightarrow> pyval pydict \<Rightarrow> pyval pydict" where
  "filter_response [] filtered_response = filtered_response"
| "filter_response ((key, v) # items) filtered_response =
     filter_response items
       (if keep_value v then dict_set filtered_response key v else filtered_response)"

text \<open>
  The inner \<open>try\<close> block with its handler for \<open>json.JSONDecodeError\<close>. Calling
  \<open>.items()\<close> on a decoded value that is not a dict raises \<open>AttributeError\<close>, which
  this block does not catch.
\<close>

definition parse_response ::
  "(string \<Rightarrow> json_result) \<Rightarrow> string \<Rightarrow> py_exn + scraped \<times> log_entry list" where
  "parse_response json_loads response_text =
     (if lower response_text = ''false''
      then Inr (SFalse, [LogInfo ''No information found''])
      else
        (case json_loads (remove_markdown response_text) of
           JSONDecodeError \<Rightarrow>
             Inr (SFalse, [LogError ''Failed to parse JSON response'', LogDebug ''Response was''])
         | JOther \<Rightarrow> Inl AttributeError
         | JObject parsed_response \<Rightarrow>
             (let filtered_response = filter_response parsed_response []
              in if filtered_response \<noteq> []
                 then Inr (SData filtered_response, [LogInfo ''Found information''])
                 else Inr (SFalse, [LogInfo ''No valid information found'']))))"

text \<open>
  The whole method: the outer handler turns every exception into \<open>False\<close> and an error
  entry in the log. The result is the returned value and the log entries written.
\<close>

definition search_conference_info ::
  "(string \<Rightarrow> json_result) \<Rightarrow> api_reply \<Rightarrow> scraped \<times> log_entry list" where
  "search_conference_info json_loads reply =
     (case reply of
        ApiRaises \<Rightarrow> (SFalse, [LogInfo ''Searching for information'', LogError ''Error searching''])
      | ApiText output_text \<Rightarrow>
          (case parse_response json_loads (strip output_text) of
             Inl e \<Rightarrow> (SFalse, [LogInfo ''Searching for information'', LogError ''Error searching''])
           | Inr (result, entries) \<Rightarrow> (result, LogInfo ''Searching for information'' # entries)))"

definition test_api_connection :: "api_reply \<Rightarrow> bool" where
  "test_api_connection reply =
     (case reply of ApiRaises \<Rightarrow> False | ApiText output_text \<Rightarrow> contains ''successful'' (lower output_text))"

section \<open>Tables (pandas data frames)\<close>

text \<open>
  A cell is \<open>NaN\<close> (pandas' missing value, also \<open>None\<close>) or a value, carried by the
  text that \<open>str()\<close> gives for it. A data frame has its column names and its rows; a row has
  its index label and its cells, in column order. A row that is shorter than the header
  reads as \<open>NaN\<close> in the columns it lacks.
\<close>

datatype cell = NaN | Cell string

fun cell_str :: "cell \<Rightarrow> string" where
  "cell_str NaN = ''nan''"
| "cell_str (Cell s) = s"

record dataframe =
  columns :: "string list"
  rows :: "(nat \<times> cell list) list"

definition empty_dataframe :: dataframe where
  "empty_dataframe = \<lparr>columns = [], rows = []\<rparr>"

definition df_empty :: "dataframe \<Rightarrow> bool" where
  "df_empty df = (columns df = [] \<or> rows df = [])"

text \<open>The row as \<open>iterrows()\<close> yields it: a series indexed by the column names.\<close>

definition series :: "dataframe \<Rightarrow> cell list \<Rightarrow> cell pydict" where
  "series df cells =
     zip (columns df) (cells @ replicate (length (columns df) - length cells) NaN)"

text \<open>\<open>row[field]\<close> raises \<open>KeyError\<close> when \<open>field\<close> is no column.\<close>

definition series_item :: "cell pydict \<Rightarrow> string \<Rightarrow> py_exn + cell" where
  "series_item row field = (case map_of row field of None \<Rightarrow> Inl KeyError | Some c \<Rightarrow> Inr c)"

text \<open>\<open>row.get(field, '')\<close>.\<close>

definition series_get :: "cell pydict \<Rightarrow> string \<Rightarrow> cell" where
  "series_get row field = (case map_of row field of None \<Rightarrow> Cell '''' | Some c \<Rightarrow> c)"

section \<open>Completeness analysis (csv\_processor.py and sheets\_processor.py)\<close>

record conference =
  index :: nat
  conference_name :: cell
  category :: cell
  region :: cell
  missing_fields :: "string list"
  existing_data :: "cell pydict"

text \<open>\<open>pd.isna(row[field]) or str(row[field]).strip() == ""\<close>, for a field that is a column.\<close>

definition is_blank :: "cell \<Rightarrow> bool" where
  "is_blank c = (c = NaN \<or> strip (cell_str c) = [])"

text \<open>
  The inner loop over the required fields, which fills \<open>missing_fields\<close>. Under the
  guard \<open>field in df.columns\<close> the series has the field, so the lookup finds a cell.
\<close>

definition find_missing :: "dataframe \<Rightarrow> cell pydict \<Rightarrow> string list \<Rightarrow> string list" where
  "find_missing df row required =
     foldl (\<lambda>missing field.
              if field \<in> set (columns df)
              then (case map_of row field of
                      None \<Rightarrow> missing
                    | Some c \<Rightarrow> if is_blank c then missing @ [field] else missing)
              else missing)
       [] required"

definition make_conference :: "nat \<Rightarrow> cell pydict \<Rightarrow> string list \<Rightarrow> py_exn + conference" where
  "make_conference idx row missing =
     (case series_item row ''Conference Name'' of
        Inl e \<Rightarrow> Inl e
      | Inr name \<Rightarrow>
          Inr \<lparr>index = idx, conference_name = name,
               category = series_get row ''Category'', region = series_get row ''Region'',
               missing_fields = missing, existing_data = row\<rparr>)"

text \<open>The loop over \<open>df.iterrows()\<close>.\<close>

fun incomplete_loop ::
  "dataframe \<Rightarrow> string list \<Rightarrow> (nat \<times> cell list) list \<Rightarrow> conference list \<Rightarrow> py_exn + conference list" where
  "incomplete_loop df required [] incomplete_conferences = Inr incomplete_conferences"
| "incomplete_loop df required ((idx, cells) # rest) incomplete_conferences =
     (let row = series df cells;
          missing = find_missing df row required
      in if missing \<noteq> []
         then (case make_conference idx row missing of
                 Inl e \<Rightarrow> Inl e
               | Inr conference_info \<Rightarrow>
                   incomplete_loop df required rest (incomplete_conferences @ [conference_info]))
         else incomplete_loop df required rest incomplete_conferences)"

text \<open>
  The method with the list of required fields as a parameter, and the method as the two
  processors have it, on \<open>Config.FIELDS_TO_SCRAPE\<close>.
\<close>

definition incomplete_conferences_for :: "string list \<Rightarrow> dataframe \<Rightarrow> py_exn + conference list" where
  "incomplete_conferences_for required df = incomplete_loop df required (rows df) []"

definition get_incomplete_conferences :: "dataframe \<Rightarrow> py_exn + conference list" where
  "get_incomplete_conferences df = incomplete_conferences_for FIELDS_TO_SCRAPE df"

text \<open>
  \<open>GoogleSheetsProcessor.load_2026_data\<close> on the values of the sheet: the first line is
  the header, the others are the rows, labelled from 0; the rows whose Conference Name is
  blank after trimming are removed and the others keep their labels. A line longer than the
  header makes the \<open>DataFrame\<close> constructor raise.
\<close>

definition sheets_load_2026_data :: "string list list \<Rightarrow> py_exn + dataframe" where
  "sheets_load_2026_data vals =
     (case vals of
        [] \<Rightarrow> Inr empty_dataframe
      | header # body \<Rightarrow>
          if \<exists>line \<in> set body. length line > length header then Inl ValueError
          else
            (let df = \<lparr>columns = header, rows = zip [0 ..< length body] (map (map Cell) body)\<rparr>
             in if ''Conference Name'' \<notin> set header then Inl KeyError
                else Inr (df\<lparr>rows := filter (\<lambda>(idx, cells).
                              strip (cell_str (series_get (series df cells) ''Conference Name'')) \<noteq> [])
                            (rows df)\<rparr>)))"


section \<open>Batch runner (web\_scraper.py, scrape\_batch)\<close>

text \<open>
  Time is a clock in seconds that \<open>time.sleep\<close> advances; the time that the calls
  themselves take is not modelled. \<open>search\<close> is the method \<open>search_conference_info\<close>
  as \<open>scrape_batch\<close> calls it: it returns a value or raises.
\<close>

record scrape_result =
  conference_info :: conference
  scraped_data :: scraped
  timestamp :: nat
  error :: "py_exn option"

text \<open>The body of the loop over the conferences of one batch, with its \<open>try\<close>.\<close>

definition scrape_one ::
  "(conference \<Rightarrow> py_exn + scraped) \<Rightarrow> scrape_result list \<times> nat \<Rightarrow> conference \<Rightarrow> scrape_result list \<times> nat" where
  "scrape_one search st conference =
     (case st of (results, clock) \<Rightarrow>
        (case search conference of
           Inr result \<Rightarrow>
             (results @ [\<lparr>conference_info = conference, scraped_data = result,
                          timestamp = clock, error = None\<rparr>], clock + 2)
         | Inl e \<Rightarrow>
             (results @ [\<lparr>conference_info = conference, scraped_data = SFalse,
                          timestamp = clock, error = Some e\<rparr>], clock)))"

text \<open>
  \<open>range(0, stop, step)\<close>: a zero step raises \<open>ValueError\<close>, a negative step gives
  the empty range (the stop is a length), a positive step gives the multiples of the step
  below the stop.
\<close>

definition py_range :: "nat \<Rightarrow> int \<Rightarrow> py_exn + nat list" where
  "py_range stop step =
     (if step = 0 then Inl ValueError
      else if step < 0 then Inr []
      else Inr (map (\<lambda>k. k * nat step) [0 ..< (stop + nat step - 1) div nat step]))"

text \<open>One round of the outer loop: the batch that starts at \<open>i\<close>, then the pause between batches.\<close>

definition scrape_round ::
  "(conference \<Rightarrow> py_exn + scraped) \<Rightarrow> conference list \<Rightarrow> int \<Rightarrow>
   scrape_result list \<times> nat \<Rightarrow> nat \<Rightarrow> scrape_result list \<times> nat" where
  "scrape_round search conferences batch_size st i =
     (let batch = take (nat batch_size) (drop i conferences);
          st' = foldl (scrape_one search) st batch
      in if int i + batch_size < int (length conferences)
         then (fst st', snd st' + 10)
         else st')"

definition scrape_batch ::
  "(conference \<Rightarrow> py_exn + scraped) \<Rightarrow> conference list \<Rightarrow> int \<Rightarrow> nat \<Rightarrow>
   py_exn + scrape_result list \<times> nat" where
  "scrape_batch search conferences batch_size clock =
     (case py_range (length conferences) batch_size of
        Inl e \<Rightarrow> Inl e
      | Inr starts \<Rightarrow> Inr (foldl (scrape_round search conferences batch_size) ([], clock) starts))"

section \<open>Record store\<close>

text \<open>
  The writes that reach the store, in order. \<open>OpenOrCreateSpreadsheet\<close> is
  \<open>create_or_open_spreadsheet\<close>, which opens the spreadsheet and its worksheets and
  creates those that do not exist; \<open>SheetRowUpdate r cells\<close> writes line \<open>r\<close> of
  the 2026 worksheet; \<open>DashboardUpdate a\<close> writes cell \<open>a\<close> of the dashboard;
  \<open>SaveCsv df\<close> writes the 2026 CSV file.
\<close>

datatype store_op =
    OpenOrCreateSpreadsheet
  | SheetRowUpdate nat "cell list"
  | DashboardUpdate string
  | SaveCsv dataframe

record world =
  clock :: nat
  store_ops :: "store_op list"

text \<open>
  The collaborators outside the repository, for one cycle: the configuration flag, whether
  opening the spreadsheet raises, the reply to the connection test, the 2026 CSV file, the
  values of the 2026 worksheet, the reply of the language model for a conference, the
  JSON decoder, and the writes that fail.
\<close>

record env =
  USE_GOOGLE_SHEETS :: bool
  open_spreadsheet_raises :: bool
  api_test_reply :: api_reply
  csv_exists :: bool
  csv_read :: "py_exn + dataframe"
  sheet_values :: "py_exn + string list list"
  model_reply :: "conference \<Rightarrow> api_reply"
  json_loads :: "string \<Rightarrow> json_result"
  store_fails :: "store_op \<Rightarrow> bool"

definition do_write :: "store_op \<Rightarrow> world \<Rightarrow> world" where
  "do_write op w = w\<lparr>store_ops := store_ops w @ [op]\<rparr>"

definition sleep :: "nat \<Rightarrow> world \<Rightarrow> world" where
  "sleep n w = w\<lparr>clock := clock w + n\<rparr>"

definition load_2026_data :: "env \<Rightarrow> py_exn + dataframe" where
  "load_2026_data e =
     (if USE_GOOGLE_SHEETS e
      then (case sheet_values e of Inl x \<Rightarrow> Inl x | Inr vals \<Rightarrow> sheets_load_2026_data vals)
      else if \<not> csv_exists e then Inr empty_dataframe
      else csv_read e)"

text \<open>
  \<open>df.at[index, field] = value\<close>: the cell of the row labelled \<open>index\<close> is set; a label
  that the frame does not have adds a row.
\<close>

definition set_cell :: "dataframe \<Rightarrow> cell list \<Rightarrow> string \<Rightarrow> cell \<Rightarrow> cell list" where
  "set_cell df cells field v = map (\<lambda>(c, x). if c = field then v else x) (series df cells)"

definition df_at_set :: "dataframe \<Rightarrow> nat \<Rightarrow> string \<Rightarrow> cell \<Rightarrow> dataframe" where
  "df_at_set df idx field v =
     (if idx \<in> fst ` set (rows df)
      then df\<lparr>rows := map (\<lambda>(i, cells). if i = idx then (i, set_cell df cells field v) else (i, cells))
                        (rows df)\<rparr>
      else df\<lparr>rows := rows df @ [(idx, set_cell df [] field v)]\<rparr>)"

text \<open>The loop over \<open>field_updates.items()\<close> that both processors have.\<close>

definition update_fields :: "dataframe \<Rightarrow> nat \<Rightarrow> pyval pydict \<Rightarrow> dataframe" where
  "update_fields df idx field_updates =
     foldl (\<lambda>df (field, v).
              if field \<in> set (columns df) then df_at_set df idx field (Cell (py_str v)) else df)
       df field_updates"

text \<open>
  \<open>_sync_row_to_sheets\<close>: \<open>df.iloc[index]\<close> reads the row at position \<open>index\<close> and
  raises \<open>IndexError\<close> beyond the last row; the row is written at line \<open>index + 2\<close>.
\<close>

definition sync_row_to_sheets :: "env \<Rightarrow> dataframe \<Rightarrow> nat \<Rightarrow> world \<Rightarrow> py_exn + world" where
  "sync_row_to_sheets e df idx w =
     (if idx < length (rows df)
      then (let row_data = map snd (series df (snd (rows df ! idx)));
                op = SheetRowUpdate (idx + 2) row_data
            in if store_fails e op then Inl ServiceError else Inr (do_write op w))
      else Inl IndexError)"

text \<open>
  \<open>update_conference_data\<close> of the processor in use. An exception leaves the writes
  already made in place, so the world comes back with it.
\<close>

definition update_conference_data ::
  "env \<Rightarrow> dataframe \<Rightarrow> nat \<Rightarrow> pyval pydict \<Rightarrow> world \<Rightarrow> py_exn \<times> world + dataframe \<times> world" where
  "update_conference_data e df idx field_updates w =
     (let df' = update_fields df idx field_updates
      in if USE_GOOGLE_SHEETS e
         then (case sync_row_to_sheets e df' idx w of
                 Inl x \<Rightarrow> Inl (x, w)
               | Inr w' \<Rightarrow> Inr (df', w'))
         else Inr (df', w))"

text \<open>
  The dashboard writes catch their exceptions: the first write that fails ends the
  method, without raising.
\<close>

fun dashboard_updates :: "env \<Rightarrow> string list \<Rightarrow> world \<Rightarrow> world" where
  "dashboard_updates e [] w = w"
| "dashboard_updates e (a # as) w =
     (if store_fails e (DashboardUpdate a) then w
      else dashboard_updates e as (do_write (DashboardUpdate a) w))"

definition update_dashboard_timestamp :: "env \<Rightarrow> world \<Rightarrow> world" where
  "update_dashboard_timestamp e w = dashboard_updates e [''B8''] w"

definition update_system_status :: "env \<Rightarrow> world \<Rightarrow> world" where
  "update_system_status e w = dashboard_updates e [''B34'', ''B35'', ''B36''] w"

definition save_csv :: "env \<Rightarrow> dataframe \<Rightarrow> world \<Rightarrow> py_exn + world" where
  "save_csv e df w = (if store_fails e (SaveCsv df) then Inl ServiceError else Inr (do_write (SaveCsv df) w))"

section \<open>Reconciliation job (scheduler.py, run\_scraping\_job)\<close>

record scheduler =
  sheets_initialized :: bool
  last_run :: "nat option"
  total_conferences_processed :: nat
  total_updates_made :: nat

text \<open>
  How a cycle ends: by one of the three early \<open>return\<close> statements, by reaching the end
  of the method, or by an exception, which the method logs and raises again.
\<close>

datatype job_exit = Raised py_exn | ApiTestFailed | NoData | NothingIncomplete | Finished

definition ensure_sheets_initialized :: "env \<Rightarrow> scheduler \<Rightarrow> world \<Rightarrow> py_exn option \<times> scheduler \<times> world" where
  "ensure_sheets_initialized e s w =
     (if USE_GOOGLE_SHEETS e \<and> \<not> sheets_initialized s
      then (if open_spreadsheet_raises e then (Some ServiceError, s, w)
            else (None, s\<lparr>sheets_initialized := True\<rparr>, do_write OpenOrCreateSpreadsheet w))
      else (None, s, w))"

definition scraper_search :: "env \<Rightarrow> conference \<Rightarrow> py_exn + scraped" where
  "scraper_search e conference = Inr (fst (search_conference_info (json_loads e) (model_reply e conference)))"

text \<open>The loop over \<open>scraping_results\<close> that validates and merges.\<close>

fun apply_results ::
  "env \<Rightarrow> scrape_result list \<Rightarrow> dataframe \<Rightarrow> nat \<Rightarrow> world \<Rightarrow> py_exn \<times> world + dataframe \<times> nat \<times> world" where
  "apply_results e [] df updates_made w = Inr (df, updates_made, w)"
| "apply_results e (result # rest) df updates_made w =
     (case scraped_data result of
        SFalse \<Rightarrow> apply_results e rest df updates_made w
      | SData d \<Rightarrow>
          if d = [] then apply_results e rest df updates_made w
          else
            (let validated_data = validate_scraped_data d
             in if validated_data = [] then apply_results e rest df updates_made w
                else
                  (case update_conference_data e df (index (conference_info result)) validated_data w of
                     Inl x \<Rightarrow> Inl x
                   | Inr (df', w') \<Rightarrow> apply_results e rest df' (updates_made + 1) w')))"

text \<open>The block under \<open>if updates_made > 0\<close>.\<close>

definition save_updated_data :: "env \<Rightarrow> dataframe \<Rightarrow> world \<Rightarrow> py_exn + world" where
  "save_updated_data e df w =
     (if USE_GOOGLE_SHEETS e
      then Inr (update_system_status e (update_dashboard_timestamp e w))
      else save_csv e df w)"

definition run_scraping_job :: "env \<Rightarrow> scheduler \<Rightarrow> world \<Rightarrow> job_exit \<times> scheduler \<times> world" where
  "run_scraping_job e s w =
     (case ensure_sheets_initialized e s w of
        (Some x, s1, w1) \<Rightarrow> (Raised x, s1, w1)
      | (None, s1, w1) \<Rightarrow>
          if \<not> test_api_connection (api_test_reply e) then (ApiTestFailed, s1, w1)
          else
            (case load_2026_data e of
               Inl x \<Rightarrow> (Raised x, s1, w1)
             | Inr df_2026 \<Rightarrow>
                 if df_empty df_2026 then (NoData, s1, w1)
                 else
                   (case get_incomplete_conferences df_2026 of
                      Inl x \<Rightarrow> (Raised x, s1, w1)
                    | Inr incomplete_conferences \<Rightarrow>
                        if incomplete_conferences = [] then (NothingIncomplete, s1, w1)
                        else
                          (case scrape_batch (scraper_search e) incomplete_conferences 3 (clock w1) of
                             Inl x \<Rightarrow> (Raised x, s1, w1)
                           | Inr (scraping_results, clock2) \<Rightarrow>
                               (case apply_results e scraping_results df_2026 0 (w1\<lparr>clock := clock2\<rparr>) of
                                  Inl (x, w3) \<Rightarrow> (Raised x, s1, w3)
                                | Inr (df', updates_made, w3) \<Rightarrow>
                                    (case (if updates_made > 0 then save_updated_data e df' w3 else Inr w3) of
                                       Inl x \<Rightarrow> (Raised x, s1, w3)
                                     | Inr w4 \<Rightarrow>
                                         (Finished,
                                          s1\<lparr>total_conferences_processed :=
                                                total_conferences_processed s1 + length incomplete_conferences,
                                              total_updates_made := total_updates_made s1 + updates_made,
                                              last_run := Some (clock w4)\<rparr>,
                                          w4)))))))"

section \<open>Scheduler loop (scheduler.py, run\_scheduler)\<close>

text \<open>
  One turn of the \<open>while True\<close> loop is a tick: either \<open>schedule.run_pending()\<close> runs
  the jobs that are due, each in the environment it meets (none when nothing is due), or
  the user interrupts the process. A job that raises ends \<open>run_pending\<close>.
\<close>

datatype tick = Pending "env list" | KeyboardInterrupt

fun run_pending :: "env list \<Rightarrow> scheduler \<Rightarrow> world \<Rightarrow> py_exn option \<times> scheduler \<times> world" where
  "run_pending [] s w = (None, s, w)"
| "run_pending (e # es) s w =
     (case run_scraping_job e s w of
        (Raised x, s', w') \<Rightarrow> (Some x, s', w')
      | (_, s', w') \<Rightarrow> run_pending es s' w')"

text \<open>
  The loop over a finite sequence of ticks. \<open>Polling\<close>: the loop has taken all the ticks
  given and is still running; \<open>Stopped\<close>: it has left by \<open>break\<close>.
\<close>

datatype loop_status = Polling | Stopped

fun scheduler_loop :: "tick list \<Rightarrow> scheduler \<Rightarrow> world \<Rightarrow> loop_status \<times> scheduler \<times> world" where
  "scheduler_loop [] s w = (Polling, s, w)"
| "scheduler_loop (KeyboardInterrupt # ticks) s w = (Stopped, s, w)"
| "scheduler_loop (Pending es # ticks) s w =
     (case run_pending es s w of
        (None, s', w') \<Rightarrow> scheduler_loop ticks s' (sleep 60 w')
      | (Some x, s', w') \<Rightarrow> scheduler_loop ticks s' (sleep 300 w'))"

text \<open>
  \<open>run_scheduler\<close>: the first run is outside the loop's \<open>try\<close>, so an exception of the
  first run leaves the method.
\<close>

definition run_scheduler ::
  "env \<Rightarrow> tick list \<Rightarrow> scheduler \<Rightarrow> world \<Rightarrow> (py_exn + loop_status) \<times> scheduler \<times> world" where
  "run_scheduler e0 ticks s w =
     (case run_scraping_job e0 s w of
        (Raised x, s', w') \<Rightarrow> (Inl x, s', w')
      | (_, s', w') \<Rightarrow>
          (case scheduler_loop ticks s' w' of (st, s'', w'') \<Rightarrow> (Inr st, s'', w'')))"


section \<open>Functions used to state the properties\<close>








section \<open>Sample inputs\<close>










section \<open>Properties of the validator\<close>

lemma strip_idem: "strip (strip s) = strip s"
proof -
  define t where "t = dropWhile is_space s"
  define u where "u = dropWhile is_space (rev t)"
  have su: "strip s = rev u" by (simp add: strip_def t_def u_def)
  have "dropWhile is_space (rev u) = rev u"
  proof (cases "u = []")
    case True then show ?thesis by simp
  next
    case False
    have suf: "\<exists>p. rev t = p @ u"
      unfolding u_def by (metis takeWhile_dropWhile_id)
    then obtain p where p: "rev t = p @ u" by blast
    from False p have "last u = last (rev t)" by simp
    moreover from False p have tne: "t \<noteq> []" by auto
    ultimately have "last u = hd t" by (simp add: last_rev)
    moreover have "\<not> is_space (hd t)" using tne unfolding t_def by (rule hd_dropWhile)
    ultimately have "\<not> is_space (hd (rev u))" using False by (simp add: hd_rev)
    then show ?thesis by (simp add: dropWhile_eq_self_iff)
  qed
  then have "strip (rev u) = rev (dropWhile is_space u)" by (simp add: strip_def)
  also have "\<dots> = rev u" by (simp add: u_def)
  finally show ?thesis by (simp add: su)
qed

lemma dict_set_fresh: "k \<notin> fst ` set d \<Longrightarrow> dict_set d k v = d @ [(k, v)]"
  by (induction d) auto

lemma keys_entry: "fst ` set (entry data f) \<subseteq> {f}"
  by (cases "accepted data f") (simp_all add: entry_def)

lemma validate_date_fresh:
  "f = ''Start Date'' \<or> f = ''End Date'' \<Longrightarrow> f \<notin> fst ` set v \<Longrightarrow> validate_date data v f = v @ entry data f"
  by (auto simp: validate_date_def entry_def accepted_def dict_set_fresh Let_def split: option.splits)

lemma validate_text_fresh:
  "f \<noteq> ''Start Date'' \<Longrightarrow> f \<noteq> ''End Date'' \<Longrightarrow> f \<notin> fst ` set v \<Longrightarrow> validate_text data v f = v @ entry data f"
  by (auto simp: validate_text_def entry_def accepted_def dict_set_fresh Let_def split: option.splits)

lemma validate_explicit:
  "validate_scraped_data data = concat (map (entry data) FIELDS_TO_SCRAPE)"
proof -
  let ?e = "entry data"
  have k: "\<And>f g. f \<noteq> g \<Longrightarrow> g \<notin> fst ` set (?e f)" using keys_entry by fastforce
  have 1: "foldl (validate_date data) [] [''Start Date'', ''End Date''] = ?e ''Start Date'' @ ?e ''End Date''"
    by (simp add: validate_date_fresh k)
  have 2: "validate_text data (?e ''Start Date'' @ ?e ''End Date'') ''Location''
           = ?e ''Start Date'' @ ?e ''End Date'' @ ?e ''Location''"
    by (simp add: validate_text_fresh k image_Un)
  have 3: "validate_text data (?e ''Start Date'' @ ?e ''End Date'' @ ?e ''Location'') ''Speaker''
           = ?e ''Start Date'' @ ?e ''End Date'' @ ?e ''Location'' @ ?e ''Speaker''"
    by (simp add: validate_text_fresh k image_Un)
  have 4: "validate_text data (?e ''Start Date'' @ ?e ''End Date'' @ ?e ''Location'' @ ?e ''Speaker'') ''Attendees''
           = ?e ''Start Date'' @ ?e ''End Date'' @ ?e ''Location'' @ ?e ''Speaker'' @ ?e ''Attendees''"
    by (simp add: validate_text_fresh k image_Un)
  have 5: "validate_text data (?e ''Start Date'' @ ?e ''End Date'' @ ?e ''Location'' @ ?e ''Speaker'' @ ?e ''Attendees'') ''Status''
           = ?e ''Start Date'' @ ?e ''End Date'' @ ?e ''Location'' @ ?e ''Speaker'' @ ?e ''Attendees'' @ ?e ''Status''"
    by (simp add: validate_text_fresh k image_Un)
  show ?thesis
    unfolding validate_scraped_data_def Let_def 1 2 3 4 5
    by (simp add: FIELDS_TO_SCRAPE_def)
qed

lemma map_of_entries:
  "map_of (concat (map (entry data) fs)) f
     = (if f \<in> set fs then map_option PStr (accepted data f) else None)"
proof (induction fs)
  case Nil then show ?case by simp
next
  case (Cons g gs)
  show ?case
  proof (cases "f = g")
    case True
    then show ?thesis
      using Cons.IH by (auto simp: entry_def split: option.splits)
  next
    case False
    then have "map_of (entry data g) f = None"
      by (simp add: entry_def split: option.splits)
    with False show ?thesis using Cons.IH by (simp add: map_add_def)
  qed
qed

lemma map_of_validate:
  "map_of (validate_scraped_data data) f
     = (if f \<in> set FIELDS_TO_SCRAPE then map_option PStr (accepted data f) else None)"
  by (simp only: validate_explicit map_of_entries)

lemma accepted_fixed: "accepted data f = Some t \<Longrightarrow> strip t = t"
  by (auto simp: accepted_def Let_def strip_idem split: option.splits if_splits)

lemma accepted_validate:
  assumes "f \<in> set FIELDS_TO_SCRAPE"
  shows "accepted (validate_scraped_data data) f = accepted data f"
proof (cases "accepted data f")
  case None
  then show ?thesis using assms by (simp add: accepted_def[of "validate_scraped_data data"] map_of_validate)
next
  case (Some t)
  then have st: "strip t = t" by (rule accepted_fixed)
  from Some have ok: "(if f = ''Start Date'' \<or> f = ''End Date''
                  then CHR ''/'' \<in> set t \<and> length t \<le> 5 else t \<noteq> [])"
    by (auto simp: accepted_def Let_def split: option.splits if_splits)
  show ?thesis using assms Some st ok
    by (simp add: accepted_def[of "validate_scraped_data data"] map_of_validate)
qed

lemma validate_idem: "validate_scraped_data (validate_scraped_data data) = validate_scraped_data data"
proof -
  have h: "map (entry (validate_scraped_data data)) FIELDS_TO_SCRAPE = map (entry data) FIELDS_TO_SCRAPE"
    by (rule map_cong[OF refl]) (simp add: entry_def accepted_validate)
  have "validate_scraped_data (validate_scraped_data data)
          = concat (map (entry (validate_scraped_data data)) FIELDS_TO_SCRAPE)"
    by (rule validate_explicit)
  also have "\<dots> = concat (map (entry data) FIELDS_TO_SCRAPE)" by (simp only: h)
  also have "\<dots> = validate_scraped_data data" by (rule validate_explicit[symmetric])
  finally show ?thesis .
qed

lemma keys_entries:
  "map fst (concat (map (entry data) fs)) = filter (\<lambda>f. accepted data f \<noteq> None) fs"
proof (induction fs)
  case Nil then show ?case by simp
next
  case (Cons g gs)
  then show ?case by (cases "accepted data g") (simp_all add: entry_def)
qed

lemma keys_validate:
  "dict_keys (validate_scraped_data data) = filter (\<lambda>f. accepted data f \<noteq> None) FIELDS_TO_SCRAPE"
  by (simp only: dict_keys_def validate_explicit keys_entries)

lemma accepted_in_data:
  assumes "accepted data f \<noteq> None"
  shows "f \<in> set (dict_keys data)"
proof -
  from assms obtain x where "map_of data f = Some x"
    by (auto simp: accepted_def split: option.splits)
  then have "(f, x) \<in> set data" by (rule map_of_SomeD)
  then show ?thesis by (force simp: dict_keys_def)
qed





text \<open>
  C4. Validating twice gives what validating once gives, and every key of the output is a
  key of the input.
\<close>

theorem validate_idempotent_restricting:
  "validate_scraped_data (validate_scraped_data m) = validate_scraped_data m
   \<and> set (dict_keys (validate_scraped_data m)) \<subseteq> set (dict_keys m)"
proof -
  have "set (dict_keys (validate_scraped_data m)) \<subseteq> set (dict_keys m)"
    using accepted_in_data by (auto simp: keys_validate)
  then show ?thesis by (simp add: validate_idem)
qed




section \<open>Properties of the oracle client\<close>





section \<open>Properties of the batch runner\<close>










section \<open>Properties of the completeness analysis\<close>







text \<open>
  The loader of the Sheets backend removes the rows whose name is blank, so the analyzer
  never meets one there.
\<close>

lemma sheets_load_drops_blank_names:
  assumes "sheets_load_2026_data vals = Inr df"
  shows "\<forall>r \<in> set (rows df).
           strip (cell_str (series_get (series df (snd r)) ''Conference Name'')) \<noteq> []"
proof (cases vals)
  case Nil
  with assms show ?thesis by (auto simp: sheets_load_2026_data_def empty_dataframe_def)
next
  case (Cons header body)
  with assms show ?thesis
    by (auto simp: sheets_load_2026_data_def Let_def series_def split: if_splits)
qed





section \<open>Properties of the reconciliation job\<close>


















section \<open>Properties of the scheduler loop\<close>




end
